theory Spec2Isabelle
  imports Complex_Main "HOL-Library.Multiset"
begin

section \<open>The OpenPose model wrapper (hpe\_model\_openpose.cpp)\<close>

subsection \<open>Machine integers\<close>

text \<open>
  The C++ \<^verbatim>\<open>int\<close> is 32 bits wide.  Values are kept as HOL integers and every
  arithmetic result is brought back into the two's complement range by \<open>int32\<close>;
  \<^verbatim>\<open>size_t\<close> values are natural numbers below \<open>2 ^ 64\<close>.
\<close>

definition int32 :: "int \<Rightarrow> int" where
  "int32 v = (v + 2 ^ 31) mod 2 ^ 32 - 2 ^ 31"

definition size_to_int :: "nat \<Rightarrow> int" where
  \<comment> \<open>\<^verbatim>\<open>static_cast<int>(n)\<close> for a \<^verbatim>\<open>size_t\<close> n\<close>
  "size_to_int n = int32 (int n)"

subsection \<open>Data of the decoder interface\<close>

text \<open>
  Modelled from the spec: the declarations of \<^verbatim>\<open>Peak\<close> and \<^verbatim>\<open>HumanPose\<close> live in
  models/openpose\_decoder.h, which is not part of the sources at hand.  A candidate
  carries an integer ID, a pixel location and a confidence score; a pose is a list of
  keypoint coordinates aligned to the keypoint-type index, plus an aggregate score.
  The type \<open>'f\<close> stands for the C++ \<^verbatim>\<open>float\<close>.
\<close>

record 'f Point2f =
  x :: 'f
  y :: 'f

record 'f Peak =
  peak_id :: int
  pos :: "'f Point2f"
  score :: 'f

record 'f HumanPose =
  keypoints :: "'f Point2f list"
  pose_score :: 'f

subsection \<open>extractPoses: the global ID assignment\<close>

text \<open>
  Lines 214--220 of the source:
  \<^verbatim>\<open>
    int peaksBefore = 0;
    for (size_t heatmapId = 1; heatmapId < heatMaps.size(); heatmapId++) {
        peaksBefore += static_cast<int>(peaksFromHeatMap[heatmapId - 1].size());
        for (auto& peak : peaksFromHeatMap[heatmapId]) {
            peak.id += peaksBefore;
        }
    }
  \<close>
  \<open>assignIds n heatmapId peaksBefore tbl\<close> is the loop from the state
  \<open>(heatmapId, peaksBefore, tbl)\<close> on, with \<open>n = heatMaps.size()\<close>.  The table has
  \<open>n\<close> rows (line 210), so both index expressions are in range inside the loop.
\<close>

definition shiftId :: "int \<Rightarrow> 'f Peak \<Rightarrow> 'f Peak" where
  "shiftId peaksBefore peak = peak\<lparr>peak_id := int32 (peak_id peak + peaksBefore)\<rparr>"

function assignIds :: "nat \<Rightarrow> nat \<Rightarrow> int \<Rightarrow> 'f Peak list list \<Rightarrow> 'f Peak list list" where
  "assignIds n heatmapId peaksBefore tbl =
     (if heatmapId < n then
        let peaksBefore' = int32 (peaksBefore + size_to_int (length (tbl ! (heatmapId - 1))));
            tbl' = tbl[heatmapId := map (shiftId peaksBefore') (tbl ! heatmapId)]
        in assignIds n (Suc heatmapId) peaksBefore' tbl'
      else tbl)"
  by pat_completeness auto
termination
  by (relation "measure (\<lambda>(n, heatmapId, peaksBefore, tbl). n - heatmapId)") auto


definition idOffset :: "'a list list \<Rightarrow> nat \<Rightarrow> nat" where
  \<comment> \<open>the number of candidates of the keypoint types before type \<open>i\<close>\<close>
  "idOffset tbl i = sum_list (map length (take i tbl))"

subsection \<open>Floating point and the compile-time constants\<close>

text \<open>
  The arithmetic of \<^verbatim>\<open>float\<close> is not interpreted: the type \<open>'f\<close> is arbitrary and
  the operations the wrapper uses are the fields of \<open>float_ops\<close>.  \<open>f32 q\<close> is the
  \<^verbatim>\<open>float\<close> a decimal literal or an integer of value \<open>q\<close> converts to, \<open>fmul\<close> and
  \<open>fdiv\<close> are the rounded product and quotient.  Equality of two values of \<open>'f\<close> is
  equality of the numbers they hold; it is used only against \<^verbatim>\<open>-1\<close>.
\<close>

record 'f float_ops =
  f32 :: "rat \<Rightarrow> 'f"
  fmul :: "'f \<Rightarrow> 'f \<Rightarrow> 'f"
  fdiv :: "'f \<Rightarrow> 'f \<Rightarrow> 'f"

text \<open>Lines 34--37: the tunable constants of the wrapper.\<close>

definition minPeaksDistance :: "'f float_ops \<Rightarrow> 'f" where
  "minPeaksDistance fl = f32 fl 3.0"

definition midPointsScoreThreshold :: "'f float_ops \<Rightarrow> 'f" where
  "midPointsScoreThreshold fl = f32 fl 0.05"

definition foundMidPointsRatioThreshold :: "'f float_ops \<Rightarrow> 'f" where
  "foundMidPointsRatioThreshold fl = f32 fl 0.8"

definition minSubsetScore :: "'f float_ops \<Rightarrow> 'f" where
  "minSubsetScore fl = f32 fl 0.2"

text \<open>
  The integer constants \<^verbatim>\<open>keypointsNumber\<close>, \<^verbatim>\<open>minJointsNumber\<close>, \<^verbatim>\<open>stride\<close> and
  \<^verbatim>\<open>upsampleRatio\<close> are initialised in models/hpe\_model\_openpose.h, which is not
  part of the sources at hand; they are parameters of the model.  \<^verbatim>\<open>keypointsNumber\<close>
  is a count (it sizes a vector on line 144), the other three are read as \<^verbatim>\<open>int\<close>.
\<close>

record hpe_consts =
  keypointsNumber :: nat
  minJointsNumber :: int
  stride :: int
  upsampleRatio :: int

definition tdiv :: "int \<Rightarrow> int \<Rightarrow> int" where
  \<comment> \<open>the C++ division of \<^verbatim>\<open>int\<close>: the quotient is truncated towards zero\<close>
  "tdiv a b = sgn a * sgn b * (\<bar>a\<bar> div \<bar>b\<bar>)"

subsection \<open>Feature maps and extractPoses\<close>

record 'p Mat =
  rows :: int
  cols :: int
  mat_data :: "'p list"

text \<open>
  Modelled from the spec: \<^verbatim>\<open>findPeaks\<close> and \<^verbatim>\<open>groupPeaksToPoses\<close> are defined in
  models/openpose\_decoder.cpp, which is not part of the sources at hand; they are
  parameters of the model.  Per the spec, the peak finder invoked for keypoint type \<open>i\<close>
  produces the candidate list of that type, and that list is stored in row \<open>i\<close> of the
  candidate table (``each task writes only to its own output slice'').  A \<^verbatim>\<open>const\<close>
  reference to a \<^verbatim>\<open>cv::Mat\<close> does not protect the pixels behind it, so each of the two
  functions also returns the contents of the maps it was given, as they are after the
  call.
\<close>

type_synonym 'f findPeaks_fn =
  "'f Mat list \<Rightarrow> 'f \<Rightarrow> nat \<Rightarrow> 'f \<Rightarrow> 'f Peak list \<times> 'f Mat list"

type_synonym 'f groupPeaksToPoses_fn =
  "'f Peak list list \<Rightarrow> 'f Mat list \<Rightarrow> nat \<Rightarrow> 'f \<Rightarrow> 'f \<Rightarrow> int \<Rightarrow> 'f
     \<Rightarrow> 'f HumanPose list \<times> 'f Mat list"

definition findPeaks ::
  "'f findPeaks_fn \<Rightarrow> 'f \<Rightarrow> 'f \<Rightarrow> nat \<Rightarrow> 'f Peak list list \<times> 'f Mat list
     \<Rightarrow> 'f Peak list list \<times> 'f Mat list" where
  "findPeaks peakFinder minDistance threshold i s =
     (let (allPeaks, heatMaps) = s;
          (peaks, heatMaps') = peakFinder heatMaps minDistance i threshold
      in (allPeaks[i := peaks], heatMaps'))"

text \<open>
  \<^verbatim>\<open>cv::parallel_for_(cv::Range(0, n), body)\<close> hands the indices of the range to worker
  threads; \<^verbatim>\<open>FindPeaksBody::operator()\<close> calls \<^verbatim>\<open>findPeaks\<close> once for every index
  it is given.  A schedule is the order in which these calls take effect: a list
  holding every index below \<open>n\<close> once.
\<close>

definition is_schedule :: "nat \<Rightarrow> nat list \<Rightarrow> bool" where
  "is_schedule n sched = (sort sched = [0..<n])"

definition parallel_for :: "nat list \<Rightarrow> (nat \<Rightarrow> 's \<Rightarrow> 's) \<Rightarrow> 's \<Rightarrow> 's" where
  "parallel_for sched body s = fold body sched s"

text \<open>
  Lines 207--225.  The arguments are the schedule of the parallel loop, the two decoder
  functions, the constants, the member \<^verbatim>\<open>confidenceThreshold\<close> and the two stacks of
  maps; the result is the list of poses and the contents of the two stacks when the
  function returns.  The vector \<^verbatim>\<open>heatMaps\<close> itself is \<^verbatim>\<open>const\<close>: its size is the
  same on line 210 and on line 215.
\<close>

definition extractPoses ::
  "nat list \<Rightarrow> 'f findPeaks_fn \<Rightarrow> 'f groupPeaksToPoses_fn \<Rightarrow> hpe_consts \<Rightarrow> 'f float_ops \<Rightarrow> 'f
     \<Rightarrow> 'f Mat list \<times> 'f Mat list \<Rightarrow> 'f HumanPose list \<times> 'f Mat list \<times> 'f Mat list" where
  "extractPoses sched peakFinder groupPeaksToPoses c fl confidenceThreshold maps =
     (let (heatMaps, pafs) = maps;
          n = length heatMaps;
          (peaksFromHeatMap, heatMaps') =
             parallel_for sched (findPeaks peakFinder (minPeaksDistance fl) confidenceThreshold)
               (replicate n [], heatMaps);
          peaksFromHeatMap' = assignIds n 1 0 peaksFromHeatMap;
          (poses, pafs') =
             groupPeaksToPoses peaksFromHeatMap' pafs (keypointsNumber c)
               (midPointsScoreThreshold fl) (foundMidPointsRatioThreshold fl)
               (minJointsNumber c) (minSubsetScore fl)
      in (poses, heatMaps', pafs'))"

text \<open>
  Modelled from the spec: ``No component mutates the heatmap/PAF maps''.  The body of
  the peak finder is not at hand; this predicate says that a call of it leaves the maps
  it was given as they were.
\<close>

definition findPeaks_keeps_maps :: "'f findPeaks_fn \<Rightarrow> bool" where
  "findPeaks_keeps_maps peakFinder =
     (\<forall>heatMaps minDistance i threshold. snd (peakFinder heatMaps minDistance i threshold) = heatMaps)"

subsection \<open>The model, the wrapper object and the library calls\<close>

type_synonym shape = "nat list"

record ov_port =
  any_name :: string
  port_shape :: shape

record ov_model =
  model_inputs :: "ov_port list"
  model_outputs :: "ov_port list"

text \<open>
  The outcomes other than a normal return.  The first seven are the
  \<^verbatim>\<open>std::runtime_error\<close>s the wrapper throws, in the order of the source (lines 53, 59,
  71, 86, 91, 94 and 121).  \<open>LibraryError\<close> is an exception thrown inside an OpenVINO
  call.  \<open>OutOfRange\<close> marks an index outside a \<^verbatim>\<open>std::vector\<close>, where C++ defines no
  behaviour: the model stops there.
\<close>

datatype error =
    OneInputExpected
  | InputShapeExpected
  | TwoOutputsExpected
  | HeatmapShapeExpected
  | PafsShapeExpected
  | MatchingDimsExpected
  | AspectRatioDoesNotFit
  | LibraryError
  | OutOfRange

text \<open>
  The OpenVINO calls that compute a new model are parameters: \<^verbatim>\<open>model->reshape\<close> with
  the new shape of the named input (it infers the shapes of the outputs again), and the
  pre/post-processing steps configured on lines 61--78 and applied by
  \<^verbatim>\<open>ppp.build()\<close>.  \<open>None\<close> is a thrown exception.
\<close>

record ov_lib =
  reshape :: "ov_model \<Rightarrow> string \<Rightarrow> shape \<Rightarrow> ov_model option"
  ppp_build :: "ov_model \<Rightarrow> ov_model option"

definition model_input :: "ov_model \<Rightarrow> error + ov_port" where
  \<comment> \<open>\<^verbatim>\<open>model->input()\<close> throws unless the model has exactly one input\<close>
  "model_input m = (case model_inputs m of [p] \<Rightarrow> Inr p | _ \<Rightarrow> Inl LibraryError)"

record cv_Size =
  width :: int
  height :: int

record ('d, 'f) HPEOpenPose =
  aspectRatio :: 'd
  targetSize :: int
  confidenceThreshold :: 'f
  inputLayerSize :: cv_Size
  inputsNames :: "string list"
  outputsNames :: "string list"

definition newHPEOpenPose :: "'d \<Rightarrow> int \<Rightarrow> 'f \<Rightarrow> ('d, 'f) HPEOpenPose" where
  \<comment> \<open>the constructor, lines 39--44\<close>
  "newHPEOpenPose ratio tsize threshold =
     \<lparr>aspectRatio = ratio, targetSize = tsize, confidenceThreshold = threshold,
      inputLayerSize = \<lparr>width = 0, height = 0\<rparr>, inputsNames = [], outputsNames = []\<rparr>"

subsection \<open>changeInputSize\<close>

definition int_to_size :: "int \<Rightarrow> nat" where
  \<comment> \<open>the conversion of an \<^verbatim>\<open>int\<close> to \<^verbatim>\<open>size_t\<close>\<close>
  "int_to_size v = nat (v mod 2 ^ 64)"

definition roundUp :: "int \<Rightarrow> int \<Rightarrow> int" where
  \<comment> \<open>\<^verbatim>\<open>static_cast<int>((v + stride - 1) / stride) * stride\<close>, lines 104 and 106\<close>
  "roundUp strd v = int32 (tdiv (int32 (int32 (v + strd) - 1)) strd * strd)"

text \<open>
  Lines 98--114.  \<open>roundScaled t a\<close> stands for
  \<^verbatim>\<open>static_cast<int>(std::round(t * a))\<close> in \<^verbatim>\<open>double\<close> arithmetic; \<open>'d\<close> is the
  type \<^verbatim>\<open>double\<close>.  The function writes positions 0, 2 and 3 of the input shape
  whatever its length is.
\<close>

definition changeInputSize ::
  "ov_lib \<Rightarrow> (int \<Rightarrow> 'd \<Rightarrow> int) \<Rightarrow> hpe_consts \<Rightarrow> ('d, 'f) HPEOpenPose \<Rightarrow> ov_model
     \<Rightarrow> error + ('d, 'f) HPEOpenPose \<times> ov_model" where
  "changeInputSize lib roundScaled c this model =
     (case model_input model of
        Inl e \<Rightarrow> Inl e
      | Inr inp \<Rightarrow>
          let inTensorName = any_name inp;
              inputShape = port_shape inp
          in if length inputShape < 4 then Inl OutOfRange
             else
               let targetSize' =
                     (if targetSize this = 0 then size_to_int (inputShape ! 2) else targetSize this);
                   height' = roundUp (stride c) targetSize';
                   inputWidth = roundScaled targetSize' (aspectRatio this);
                   width' = roundUp (stride c) inputWidth;
                   inputShape' = inputShape[0 := 1, 2 := int_to_size height', 3 := int_to_size width'];
                   this' = this\<lparr>targetSize := targetSize',
                                inputLayerSize := \<lparr>width = size_to_int (inputShape' ! 3),
                                                   height = size_to_int (inputShape' ! 2)\<rparr>\<rparr>
               in case reshape lib model inTensorName inputShape' of
                    None \<Rightarrow> Inl LibraryError
                  | Some model' \<Rightarrow> Inr (this', model'))"

subsection \<open>prepareInputsOutputs\<close>

text \<open>
  Lines 46--96.  The shapes of the outputs are read from \<^verbatim>\<open>outputsInfo\<close>, taken on line
  69 from the model as line 49 reshaped it.
\<close>

definition prepareInputsOutputs ::
  "ov_lib \<Rightarrow> (int \<Rightarrow> 'd \<Rightarrow> int) \<Rightarrow> hpe_consts \<Rightarrow> ('d, 'f) HPEOpenPose \<Rightarrow> ov_model
     \<Rightarrow> error + ('d, 'f) HPEOpenPose \<times> ov_model" where
  "prepareInputsOutputs lib roundScaled c this model =
     (case changeInputSize lib roundScaled c this model of
        Inl e \<Rightarrow> Inl e
      | Inr (this1, model1) \<Rightarrow>
          if length (model_inputs model1) \<noteq> 1 then Inl OneInputExpected
          else case model_input model1 of
            Inl e \<Rightarrow> Inl e
          | Inr inp \<Rightarrow>
              let this2 = this1\<lparr>inputsNames := inputsNames this1 @ [any_name inp]\<rparr>;
                  inputShape = port_shape inp
              in if length inputShape \<noteq> 4 then Inl InputShapeExpected
                 else if inputShape ! 0 \<noteq> 1 \<or> inputShape ! 1 \<noteq> 3 then Inl InputShapeExpected
                 else
                   let outputsInfo = model_outputs model1
                   in if length outputsInfo \<noteq> 2 then Inl TwoOutputsExpected
                      else
                        let this3 = this2\<lparr>outputsNames :=
                                      outputsNames this2 @ map any_name (model_outputs model1)\<rparr>
                        in case ppp_build lib model1 of
                             None \<Rightarrow> Inl LibraryError
                           | Some model2 \<Rightarrow>
                               let heatmapsOutputShape = port_shape (outputsInfo ! 0)
                               in if length heatmapsOutputShape \<noteq> 4 then Inl HeatmapShapeExpected
                                  else if heatmapsOutputShape ! 0 \<noteq> 1
                                          \<or> heatmapsOutputShape ! 1 \<noteq> keypointsNumber c + 1
                                  then Inl HeatmapShapeExpected
                                  else
                                    let pafsOutputShape = port_shape (outputsInfo ! 1)
                                    in if length pafsOutputShape \<noteq> 4 then Inl PafsShapeExpected
                                       else if pafsOutputShape ! 0 \<noteq> 1
                                               \<or> pafsOutputShape ! 1 \<noteq> 2 * (keypointsNumber c + 1)
                                       then Inl PafsShapeExpected
                                       else if pafsOutputShape ! 2 \<noteq> heatmapsOutputShape ! 2
                                               \<or> pafsOutputShape ! 3 \<noteq> heatmapsOutputShape ! 3
                                       then Inl MatchingDimsExpected
                                       else Inr (this3, model2))"

subsection \<open>preprocess\<close>

record cv_Rect =
  rect_x :: int
  rect_y :: int
  rect_width :: int
  rect_height :: int

record 'f InternalScaleData =
  inputImgWidth :: int
  inputImgHeight :: int
  scaleX :: 'f
  scaleY :: 'f

text \<open>
  What a call of \<^verbatim>\<open>preprocess\<close> that returns leaves behind: the tensor set on the
  request, whether the warning of line 124 was logged, and the returned scale data.
\<close>

record ('p, 'f) preprocessed =
  input_tensor :: "'p Mat"
  warned :: bool
  scale_data :: "'f InternalScaleData"

text \<open>
  \<^verbatim>\<open>resizeImageExt\<close> (utils/image\_utils) is not part of the sources at hand; it is a
  parameter, called with the image and the width and height of the input layer, and
  returning the padded image and the rectangle it writes to \<^verbatim>\<open>roi\<close>.
\<close>

type_synonym 'p resizeImageExt_fn = "'p Mat \<Rightarrow> int \<Rightarrow> int \<Rightarrow> 'p Mat \<times> cv_Rect"

definition preprocess ::
  "'f float_ops \<Rightarrow> 'p resizeImageExt_fn \<Rightarrow> hpe_consts \<Rightarrow> ('d, 'f) HPEOpenPose \<Rightarrow> 'p Mat
     \<Rightarrow> error + ('p, 'f) preprocessed" where
  "preprocess fl resizeImageExt c this inputImage =
     (let (paddedImage, roi) =
            resizeImageExt inputImage (width (inputLayerSize this)) (height (inputLayerSize this))
      in if width (inputLayerSize this) < rect_width roi then Inl AspectRatioDoesNotFit
         else Inr \<lparr>input_tensor = paddedImage,
                   warned = (rect_width roi \<le> int32 (width (inputLayerSize this) - stride c)),
                   scale_data =
                     \<lparr>inputImgWidth = cols paddedImage, inputImgHeight = rows paddedImage,
                      scaleX = fdiv fl (f32 fl (of_int (cols inputImage))) (f32 fl (of_int (rect_width roi))),
                      scaleY = fdiv fl (f32 fl (of_int (rows inputImage))) (f32 fl (of_int (rect_height roi)))\<rparr>\<rparr>)"

subsection \<open>postprocess\<close>

record 'f ov_Tensor =
  tensor_shape :: shape
  tensor_data :: "'f list"

record ('f, 'm) InferenceResult =
  frameId :: int
  metaData :: 'm
  outputsData :: "string \<Rightarrow> 'f ov_Tensor option"
  internalModelData :: "'f InternalScaleData"

record ('f, 'm) HumanPoseResult =
  result_frameId :: int
  result_metaData :: 'm
  poses :: "'f HumanPose list"

definition matAt :: "'f list \<Rightarrow> nat \<Rightarrow> nat \<Rightarrow> nat \<Rightarrow> 'f Mat" where
  \<comment> \<open>\<^verbatim>\<open>cv::Mat(h, w, CV_32FC1, data + i * h * w)\<close>, lines 146 and 153\<close>
  "matAt buf h w i =
     \<lparr>rows = size_to_int h, cols = size_to_int w, mat_data = take (h * w) (drop (i * h * w) buf)\<rparr>"

text \<open>
  Lines 178--183.  \<open>cv_resize m r\<close> stands for the map \<^verbatim>\<open>cv::resize\<close> computes from
  \<open>m\<close> with the scale factor \<open>r\<close> in both directions and cubic interpolation.
\<close>

definition resizeFeatureMaps :: "('f Mat \<Rightarrow> int \<Rightarrow> 'f Mat) \<Rightarrow> hpe_consts \<Rightarrow> 'f Mat list \<Rightarrow> 'f Mat list" where
  "resizeFeatureMaps cv_resize c featureMaps = map (\<lambda>featureMap. cv_resize featureMap (upsampleRatio c)) featureMaps"

text \<open>
  Lines 135--156: the two stacks of maps handed to \<^verbatim>\<open>extractPoses\<close>.  A name that
  \<^verbatim>\<open>outputsData\<close> does not hold yields an empty tensor, whose shape cannot be read.
\<close>

definition featureMaps ::
  "('f Mat \<Rightarrow> int \<Rightarrow> 'f Mat) \<Rightarrow> hpe_consts \<Rightarrow> ('d, 'f) HPEOpenPose \<Rightarrow> ('f, 'm) InferenceResult
     \<Rightarrow> error + 'f Mat list \<times> 'f Mat list" where
  "featureMaps cv_resize c this infResult =
     (if length (outputsNames this) < 2 then Inl OutOfRange
      else case (outputsData infResult (outputsNames this ! 0),
                 outputsData infResult (outputsNames this ! 1)) of
        (Some heatMapsMapped, Some outputMapped) \<Rightarrow>
          let outputShape = tensor_shape outputMapped;
              heatMapShape = tensor_shape heatMapsMapped;
              predictions = tensor_data outputMapped;
              heats = tensor_data heatMapsMapped
          in if length outputShape < 2 then Inl OutOfRange
             else if (0 < keypointsNumber c \<or> 0 < outputShape ! 1) \<and> length heatMapShape < 4
             then Inl OutOfRange
             else
               let heatMaps = map (matAt heats (heatMapShape ! 2) (heatMapShape ! 3))
                                [0..<keypointsNumber c];
                   pafs = map (matAt predictions (heatMapShape ! 2) (heatMapShape ! 3))
                            [0..<outputShape ! 1]
               in Inr (resizeFeatureMaps cv_resize c heatMaps, resizeFeatureMaps cv_resize c pafs)
      | _ \<Rightarrow> Inl LibraryError)"

text \<open>Lines 163--170: the rescaling of the keypoints.\<close>

definition rescaleKeypoint :: "'f float_ops \<Rightarrow> 'f \<Rightarrow> 'f \<Rightarrow> 'f Point2f \<Rightarrow> 'f Point2f" where
  "rescaleKeypoint fl sx sy keypoint =
     (if x keypoint \<noteq> f32 fl (- 1) \<or> y keypoint \<noteq> f32 fl (- 1)
      then keypoint\<lparr>x := fmul fl (x keypoint) sx, y := fmul fl (y keypoint) sy\<rparr>
      else keypoint)"

definition rescalePose :: "'f float_ops \<Rightarrow> 'f \<Rightarrow> 'f \<Rightarrow> 'f HumanPose \<Rightarrow> 'f HumanPose" where
  "rescalePose fl sx sy pose = pose\<lparr>keypoints := map (rescaleKeypoint fl sx sy) (keypoints pose)\<rparr>"

text \<open>Lines 171--173: the loop that appends the poses to the result.\<close>

function push_back_poses :: "nat \<Rightarrow> 'a list \<Rightarrow> 'a list \<Rightarrow> 'a list" where
  "push_back_poses i ps result =
     (if i < length ps then push_back_poses (Suc i) ps (result @ [ps ! i]) else result)"
  by pat_completeness auto
termination
  by (relation "measure (\<lambda>(i, ps, result). length ps - i)") auto

text \<open>
  Lines 160--173, from the poses \<^verbatim>\<open>extractPoses\<close> returned to the poses of the result;
  \<^verbatim>\<open>stride / upsampleRatio\<close> is a division of \<^verbatim>\<open>int\<close>.  The result is constructed on
  line 133 and holds no pose before the loop of line 171.
\<close>

definition finishPoses ::
  "'f float_ops \<Rightarrow> hpe_consts \<Rightarrow> 'f InternalScaleData \<Rightarrow> 'f HumanPose list \<Rightarrow> 'f HumanPose list" where
  "finishPoses fl c scale ps =
     (let sx = fmul fl (f32 fl (of_int (tdiv (stride c) (upsampleRatio c)))) (scaleX scale);
          sy = fmul fl (f32 fl (of_int (tdiv (stride c) (upsampleRatio c)))) (scaleY scale)
      in push_back_poses 0 (map (rescalePose fl sx sy) ps) [])"

text \<open>Lines 132--176.\<close>

definition postprocess ::
  "nat list \<Rightarrow> 'f findPeaks_fn \<Rightarrow> 'f groupPeaksToPoses_fn \<Rightarrow> ('f Mat \<Rightarrow> int \<Rightarrow> 'f Mat)
     \<Rightarrow> 'f float_ops \<Rightarrow> hpe_consts \<Rightarrow> ('d, 'f) HPEOpenPose \<Rightarrow> ('f, 'm) InferenceResult
     \<Rightarrow> error + ('f, 'm) HumanPoseResult" where
  "postprocess sched peakFinder groupPeaksToPoses cv_resize fl c this infResult =
     (case featureMaps cv_resize c this infResult of
        Inl e \<Rightarrow> Inl e
      | Inr maps \<Rightarrow>
          let extracted =
                fst (extractPoses sched peakFinder groupPeaksToPoses c fl (confidenceThreshold this) maps)
          in Inr \<lparr>result_frameId = frameId infResult, result_metaData = metaData infResult,
                   poses = finishPoses fl c (internalModelData infResult) extracted\<rparr>)"

subsection \<open>Rounding up to the stride\<close>

text \<open>\<open>h\<close> is the smallest multiple of \<open>s\<close> that is greater than or equal to \<open>v\<close>.\<close>

definition smallest_multiple_ge :: "int \<Rightarrow> int \<Rightarrow> int \<Rightarrow> bool" where
  "smallest_multiple_ge s v h = (s dvd h \<and> v \<le> h \<and> (\<forall>m. s dvd m \<and> v \<le> m \<longrightarrow> h \<le> m))"

section \<open>Example inputs\<close>

text \<open>
  An interpretation of the floating-point operations by exact rational arithmetic, and
  the values the constants have in the Open Model Zoo (18 keypoint types, at least 3
  joints, stride 8, upsampling by 4), next to a small set with two keypoint types.
\<close>

definition exactFloat :: "rat float_ops" where
  "exactFloat = \<lparr>f32 = (\<lambda>q. q), fmul = (\<lambda>a b. a * b), fdiv = (\<lambda>a b. a / b)\<rparr>"

definition openposeConsts :: hpe_consts where
  "openposeConsts = \<lparr>keypointsNumber = 18, minJointsNumber = 3, stride = 8, upsampleRatio = 4\<rparr>"

definition smallConsts :: hpe_consts where
  "smallConsts = \<lparr>keypointsNumber = 2, minJointsNumber = 3, stride = 8, upsampleRatio = 4\<rparr>"

text \<open>
  A peak finder that takes every pixel above the threshold as a candidate, numbered in
  scan order, and a grouping that makes one pose of every candidate: its location and
  one absent keypoint.  Neither writes to the maps.
\<close>

definition thresholdPeaks :: "rat findPeaks_fn" where
  "thresholdPeaks heatMaps minDistance i threshold =
     (map (\<lambda>(k, v). \<lparr>peak_id = int k, pos = \<lparr>x = of_nat k + 4, y = 7\<rparr>, score = v\<rparr>)
        (enumerate 0 (filter (\<lambda>v. threshold < v) (mat_data (heatMaps ! i)))),
      heatMaps)"

definition singletonPoses :: "rat groupPeaksToPoses_fn" where
  "singletonPoses peaks pafs k t1 t2 j t3 =
     (map (\<lambda>p. \<lparr>keypoints = [pos p, \<lparr>x = - 1, y = - 1\<rparr>], pose_score = score p\<rparr>) (concat peaks),
      pafs)"

text \<open>
  A grouping that makes one pose of every candidate it is handed and reports the ID of
  the candidate as the score of the pose.
\<close>

definition idPoses :: "rat groupPeaksToPoses_fn" where
  "idPoses peaks pafs k t1 t2 j t3 =
     (map (\<lambda>p. \<lparr>keypoints = [pos p], pose_score = of_int (peak_id p)\<rparr>) (concat peaks), pafs)"

definition exampleHeatMaps :: "rat Mat list" where
  "exampleHeatMaps =
     [\<lparr>rows = 1, cols = 2, mat_data = [1 / 2, 9 / 10]\<rparr>, \<lparr>rows = 1, cols = 2, mat_data = [0, 3 / 10]\<rparr>]"

definition examplePafs :: "rat Mat list" where
  "examplePafs = [\<lparr>rows = 1, cols = 2, mat_data = [1, 0]\<rparr>, \<lparr>rows = 1, cols = 2, mat_data = [0, 1]\<rparr>]"

text \<open>
  The candidates the thresholding peak finder takes from the example heatmaps: two of
  type 0 and one of type 1, numbered per type.
\<close>

definition exampleTable :: "rat Peak list list" where
  "exampleTable =
     [[\<lparr>peak_id = 0, pos = \<lparr>x = 4, y = 7\<rparr>, score = 1 / 2\<rparr>,
       \<lparr>peak_id = 1, pos = \<lparr>x = 5, y = 7\<rparr>, score = 9 / 10\<rparr>],
      [\<lparr>peak_id = 0, pos = \<lparr>x = 4, y = 7\<rparr>, score = 3 / 10\<rparr>]]"

text \<open>
  A wrapper object after \<^verbatim>\<open>prepareInputsOutputs\<close>, and an inference result with a
  heatmap tensor of three channels and a PAF tensor of two, each map one row of two
  pixels.  The resize used with them leaves the pixels as they are.
\<close>

definition exampleWrapper :: "(rat, rat) HPEOpenPose" where
  "exampleWrapper =
     \<lparr>aspectRatio = 1, targetSize = 8, confidenceThreshold = 1 / 10,
      inputLayerSize = \<lparr>width = 8, height = 8\<rparr>,
      inputsNames = [''data''], outputsNames = [''heatmaps'', ''pafs'']\<rparr>"

definition exampleOutputs :: "string \<Rightarrow> rat ov_Tensor option" where
  "exampleOutputs =
     [''heatmaps'' \<mapsto> \<lparr>tensor_shape = [1, 3, 1, 2], tensor_data = [1 / 2, 9 / 10, 0, 3 / 10, 1, 1]\<rparr>,
      ''pafs'' \<mapsto> \<lparr>tensor_shape = [1, 2, 1, 2], tensor_data = [1, 0, 0, 1]\<rparr>]"

definition exampleInference :: "(rat, unit) InferenceResult" where
  "exampleInference =
     \<lparr>frameId = 7, metaData = (), outputsData = exampleOutputs,
      internalModelData = \<lparr>inputImgWidth = 8, inputImgHeight = 8, scaleX = 3, scaleY = 5\<rparr>\<rparr>"

definition keepPixels :: "rat Mat \<Rightarrow> int \<Rightarrow> rat Mat" where
  "keepPixels m r = m"

text \<open>The poses the example grouping makes of the example maps.\<close>

definition examplePoses :: "rat HumanPose list" where
  "examplePoses =
     [\<lparr>keypoints = [\<lparr>x = 4, y = 7\<rparr>, \<lparr>x = - 1, y = - 1\<rparr>], pose_score = 1 / 2\<rparr>,
      \<lparr>keypoints = [\<lparr>x = 5, y = 7\<rparr>, \<lparr>x = - 1, y = - 1\<rparr>], pose_score = 9 / 10\<rparr>,
      \<lparr>keypoints = [\<lparr>x = 4, y = 7\<rparr>, \<lparr>x = - 1, y = - 1\<rparr>], pose_score = 3 / 10\<rparr>]"

text \<open>
  Library calls that succeed: a reshape that stores the new shape of the named input
  and leaves the outputs as they are, and a build that returns the model unchanged.
  The rounding of \<^verbatim>\<open>targetSize * aspectRatio\<close> is done on exact rationals, halves
  away from zero as \<^verbatim>\<open>std::round\<close> does.
\<close>

definition exampleLib :: ov_lib where
  "exampleLib =
     \<lparr>reshape = (\<lambda>m name sh.
        Some (m\<lparr>model_inputs :=
          map (\<lambda>p. if any_name p = name then p\<lparr>port_shape := sh\<rparr> else p) (model_inputs m)\<rparr>)),
      ppp_build = (\<lambda>m. Some m)\<rparr>"

definition exactRoundScaled :: "int \<Rightarrow> rat \<Rightarrow> int" where
  "exactRoundScaled t a =
     (let v = of_int t * a in if 0 \<le> v then \<lfloor>v + 1 / 2\<rfloor> else - \<lfloor>- v + 1 / 2\<rfloor>)"

text \<open>
  Four models: the shapes of the OpenPose network of the Open Model Zoo; the same with
  a PAF output one column narrower than the heatmaps; the same with a one-channel
  input; and the same with a second input.
\<close>

definition openposeModel :: ov_model where
  "openposeModel =
     \<lparr>model_inputs = [\<lparr>any_name = ''data'', port_shape = [1, 3, 368, 368]\<rparr>],
      model_outputs = [\<lparr>any_name = ''heatmaps'', port_shape = [1, 19, 46, 46]\<rparr>,
                       \<lparr>any_name = ''pafs'', port_shape = [1, 38, 46, 46]\<rparr>]\<rparr>"

definition narrowPafsModel :: ov_model where
  "narrowPafsModel =
     openposeModel\<lparr>model_outputs := [\<lparr>any_name = ''heatmaps'', port_shape = [1, 19, 46, 46]\<rparr>,
                                       \<lparr>any_name = ''pafs'', port_shape = [1, 38, 46, 45]\<rparr>]\<rparr>"

definition grayInputModel :: ov_model where
  "grayInputModel =
     openposeModel\<lparr>model_inputs := [\<lparr>any_name = ''data'', port_shape = [1, 1, 368, 368]\<rparr>]\<rparr>"

definition twoInputsModel :: ov_model where
  "twoInputsModel =
     openposeModel\<lparr>model_inputs := [\<lparr>any_name = ''data'', port_shape = [1, 3, 368, 368]\<rparr>,
                                      \<lparr>any_name = ''mask'', port_shape = [1, 3, 368, 368]\<rparr>]\<rparr>"

text \<open>
  A freshly constructed wrapper with aspect ratio 1 and target size 368, and the wrapper
  and model that \<^verbatim>\<open>prepareInputsOutputs\<close> makes of it and the OpenPose model.
\<close>

definition squareWrapper :: "(rat, rat) HPEOpenPose" where
  "squareWrapper = newHPEOpenPose 1 368 (1 / 10)"

definition preparedWrapper :: "(rat, rat) HPEOpenPose" where
  "preparedWrapper =
     \<lparr>aspectRatio = 1, targetSize = 368, confidenceThreshold = 1 / 10,
      inputLayerSize = \<lparr>width = 368, height = 368\<rparr>,
      inputsNames = [''data''], outputsNames = [''heatmaps'', ''pafs'']\<rparr>"

text \<open>
  An image of 640 by 480 pixels, and two stand-ins for \<^verbatim>\<open>resizeImageExt\<close>: one scales
  the image to a region that fills the width of the input layer, the other reports a
  region 8 pixels wider than the input layer.
\<close>

definition exampleImage :: "nat Mat" where
  "exampleImage = \<lparr>rows = 480, cols = 640, mat_data = []\<rparr>"

definition fittingResize :: "nat resizeImageExt_fn" where
  "fittingResize img w h =
     (\<lparr>rows = h, cols = w, mat_data = mat_data img\<rparr>,
      \<lparr>rect_x = 0, rect_y = 0, rect_width = w, rect_height = tdiv (rows img * w) (cols img)\<rparr>)"

definition wideResize :: "nat resizeImageExt_fn" where
  "wideResize img w h =
     (\<lparr>rows = h, cols = w, mat_data = mat_data img\<rparr>,
      \<lparr>rect_x = 0, rect_y = 0, rect_width = w + 8, rect_height = h\<rparr>)"

text \<open>
  Three more wrappers: one made for a frame 1024 times as high as it is wide and one
  for a 16:9 frame, both with the target size left to the model, and one with a
  negative target size.
\<close>

definition tallFrameWrapper :: "(rat, rat) HPEOpenPose" where
  "tallFrameWrapper = newHPEOpenPose (1 / 1024) 0 (1 / 10)"

definition negativeSizeWrapper :: "(rat, rat) HPEOpenPose" where
  "negativeSizeWrapper = newHPEOpenPose 1 (- 8) (1 / 10)"

definition wideFrameWrapper :: "(rat, rat) HPEOpenPose" where
  "wideFrameWrapper = newHPEOpenPose (16 / 9) 0 (1 / 10)"

section \<open>Properties\<close>

subsection \<open>Machine integers in range\<close>

lemma int32_id: "- (2 ^ 31) \<le> v \<Longrightarrow> v < 2 ^ 31 \<Longrightarrow> int32 v = v"
  by (simp add: int32_def)

lemma size_to_int_id: "n < 2 ^ 31 \<Longrightarrow> size_to_int n = int n"
  by (simp add: size_to_int_def int32_id)

subsection \<open>The global candidate IDs\<close>

lemma assignIds_length: "length (assignIds n k pb tbl) = length tbl"
  by (induction n k pb tbl rule: assignIds.induct) (simp add: Let_def)

lemma sum_pred_single: "0 < (k::nat) \<Longrightarrow> (\<Sum>j = k - 1..<k. f j) = (f (k - 1) :: nat)"
  by (cases k) simp_all

lemma sum_pred_split: "0 < (k::nat) \<Longrightarrow> k \<le> m \<Longrightarrow> (\<Sum>j = k - 1..<m. f j) = (f (k - 1) :: nat) + (\<Sum>j = k..<m. f j)"
  by (cases k) (simp_all add: sum.atLeast_Suc_lessThan)

lemma assignIds_nth:
  assumes "length tbl = n" "0 < k" "i < n" "0 \<le> pb"
    and "pb + int (\<Sum>j = k - 1..<n. length (tbl ! j)) < 2 ^ 31"
    and "\<forall>j<n. k \<le> j \<longrightarrow> (\<forall>p\<in>set (tbl ! j). 0 \<le> peak_id p \<and> peak_id p < int (length (tbl ! j)))"
  shows "map peak_id (assignIds n k pb tbl ! i) =
     (if i < k then map peak_id (tbl ! i)
      else map (\<lambda>p. peak_id p + pb + int (\<Sum>j = k - 1..<i. length (tbl ! j))) (tbl ! i))"
  using assms
proof (induction n k pb tbl rule: assignIds.induct)
  case (1 n k pb tbl)
  show ?case
  proof (cases "k < n")
    case False
    with "1.prems" show ?thesis by simp
  next
    case True
    define pb' where "pb' = int32 (pb + size_to_int (length (tbl ! (k - 1))))"
    define tbl' where "tbl' = tbl[k := map (shiftId pb') (tbl ! k)]"
    define a where "a = length (tbl ! (k - 1))"
    define rest where "rest = (\<Sum>j = k..<n. length (tbl ! j))"
    have len: "\<And>j. length (tbl' ! j) = length (tbl ! j)"
      using "1.prems"(1) True by (simp add: tbl'_def nth_list_update)
    have split: "(\<Sum>j = k - 1..<n. length (tbl ! j)) = a + rest"
      unfolding a_def rest_def
      using True "1.prems"(2) sum_pred_split[of k n "\<lambda>j. length (tbl ! j)"] by simp
    have b5: "pb + int (a + rest) < 2 ^ 31"
      using "1.prems"(5) unfolding split .
    have small: "a < 2 ^ 31"
      using "1.prems"(4) b5 by simp
    have pb'_eq: "pb' = pb + int a"
      using "1.prems"(4) b5 small unfolding pb'_def a_def [symmetric]
      by (simp add: size_to_int_id int32_id)
    have unfold: "assignIds n k pb tbl = assignIds n (Suc k) pb' tbl'"
      using True by (simp add: pb'_def tbl'_def Let_def)
    have bound': "pb' + int (\<Sum>j = Suc k - 1..<n. length (tbl' ! j)) < 2 ^ 31"
      using b5 by (simp add: pb'_eq len rest_def)
    have ids': "\<forall>j<n. Suc k \<le> j \<longrightarrow> (\<forall>p\<in>set (tbl' ! j). 0 \<le> peak_id p \<and> peak_id p < int (length (tbl' ! j)))"
      using "1.prems"(1,6) by (simp add: tbl'_def nth_list_update)
    have IH: "map peak_id (assignIds n (Suc k) pb' tbl' ! i) =
     (if i < Suc k then map peak_id (tbl' ! i)
      else map (\<lambda>p. peak_id p + pb' + int (\<Sum>j = Suc k - 1..<i. length (tbl' ! j))) (tbl' ! i))"
      using "1.IH"[OF True pb'_def tbl'_def _ _ "1.prems"(3) _ bound' ids'] "1.prems"(1,4)
      by (simp add: tbl'_def pb'_eq)
    consider "i < k" | "i = k" | "k < i" by linarith
    then show ?thesis
    proof cases
      case 1
      then show ?thesis unfolding unfold IH using "1.prems"(1) by (simp add: tbl'_def)
    next
      case 2
      have row: "rest \<ge> length (tbl ! k)"
        unfolding rest_def using True by (simp add: sum.atLeast_Suc_lessThan)
      have "\<forall>p\<in>set (tbl ! k). int32 (peak_id p + pb') = peak_id p + pb + int a"
      proof
        fix p assume "p \<in> set (tbl ! k)"
        then have "0 \<le> peak_id p \<and> peak_id p < int (length (tbl ! k))"
          using "1.prems"(6) True by simp
        then show "int32 (peak_id p + pb') = peak_id p + pb + int a"
          using b5 row "1.prems"(4) by (simp add: pb'_eq int32_id)
      qed
      moreover have "(\<Sum>j = k - 1..<k. length (tbl ! j)) = a"
        using "1.prems"(2) sum_pred_single[of k "\<lambda>j. length (tbl ! j)"] by (simp add: a_def)
      ultimately show ?thesis unfolding unfold IH using 2 "1.prems"(1) True
        by (simp add: tbl'_def shiftId_def)
    next
      case 3
      have "(\<Sum>j = k - 1..<i. length (tbl ! j)) = a + (\<Sum>j = k..<i. length (tbl ! j))"
        unfolding a_def
        using 3 "1.prems"(2) sum_pred_split[of k i "\<lambda>j. length (tbl ! j)"] by simp
      moreover have "tbl' ! i = tbl ! i"
        using 3 by (simp add: tbl'_def)
      ultimately show ?thesis unfolding unfold IH using 3
        by (simp add: pb'_eq len)
    qed
  qed
qed


lemma idOffset_sum:
  assumes "i \<le> length tbl"
  shows "idOffset tbl i = (\<Sum>j = 0..<i. length (tbl ! j))"
proof -
  have "sum_list (map length (take i tbl)) = (\<Sum>j = 0..<i. map length (take i tbl) ! j)"
    using sum_list_sum_nth[of "map length (take i tbl)"] assms by (simp add: min_def)
  also have "\<dots> = (\<Sum>j = 0..<i. length (tbl ! j))"
    by (rule sum.cong) (use assms in auto)
  finally show ?thesis by (simp add: idOffset_def)
qed

lemma idOffset_Suc: "i < length tbl \<Longrightarrow> idOffset tbl (Suc i) = idOffset tbl i + length (tbl ! i)"
  by (simp add: idOffset_sum)

lemma idOffset_le: "idOffset tbl i \<le> sum_list (map length tbl)"
proof -
  have "sum_list (map length tbl) = sum_list (map length (take i tbl)) + sum_list (map length (drop i tbl))"
    by (metis append_take_drop_id map_append sum_list_append)
  then show ?thesis by (simp add: idOffset_def)
qed

text \<open>
  The loop on a table whose rows are numbered from 0 each, when the number of all
  candidates fits the \<^verbatim>\<open>int\<close> counter: row \<open>i\<close> gets the IDs from the number of
  candidates in the rows before it on.
\<close>

lemma assignIds_contiguous:
  assumes numbered: "\<forall>i<length tbl. map peak_id (tbl ! i) = map int [0..<length (tbl ! i)]"
    and fits: "sum_list (map length tbl) < 2 ^ 31"
    and i: "i < length tbl"
  shows "map peak_id (assignIds (length tbl) 1 0 tbl ! i) = map int [idOffset tbl i..<idOffset tbl (Suc i)]"
proof -
  have total: "(\<Sum>j = 0..<length tbl. length (tbl ! j)) = sum_list (map length tbl)"
    using idOffset_sum[of "length tbl" tbl] by (simp add: idOffset_def)
  have bound: "(0::int) + int (\<Sum>j = 1 - 1..<length tbl. length (tbl ! j)) < 2 ^ 31"
    using fits total by simp
  have small: "\<forall>j<length tbl. 1 \<le> j \<longrightarrow>
      (\<forall>p\<in>set (tbl ! j). 0 \<le> peak_id p \<and> peak_id p < int (length (tbl ! j)))"
  proof (intro allI impI ballI)
    fix j p assume j: "j < length tbl" and p: "p \<in> set (tbl ! j)"
    then have "peak_id p \<in> set (map peak_id (tbl ! j))" by simp
    then have "peak_id p \<in> set (map int [0..<length (tbl ! j)])" using numbered j by simp
    then show "0 \<le> peak_id p \<and> peak_id p < int (length (tbl ! j))" by auto
  qed
  have step: "map peak_id (assignIds (length tbl) 1 0 tbl ! i) =
     (if i < 1 then map peak_id (tbl ! i)
      else map (\<lambda>p. peak_id p + 0 + int (\<Sum>j = 1 - 1..<i. length (tbl ! j))) (tbl ! i))"
    by (rule assignIds_nth[OF refl _ i _ bound small]) simp_all
  have ids: "map peak_id (tbl ! i) = map int [0..<length (tbl ! i)]"
    using numbered i by simp
  have shift: "map (\<lambda>p. peak_id p + int k) (tbl ! i) = map int [k..<k + length (tbl ! i)]" for k
  proof -
    have "map (\<lambda>p. peak_id p + int k) (tbl ! i) = map (\<lambda>v. v + int k) (map peak_id (tbl ! i))"
      by simp
    also have "\<dots> = map (\<lambda>m. int (m + k)) [0..<length (tbl ! i)]"
      unfolding ids by simp
    also have "\<dots> = map int (map (\<lambda>m. m + k) [0..<length (tbl ! i)])"
      by simp
    also have "map (\<lambda>m. m + k) [0..<length (tbl ! i)] = [k..<k + length (tbl ! i)]"
      using map_add_upt[of k "length (tbl ! i)"] by (simp add: add.commute)
    finally show ?thesis .
  qed
  show ?thesis
  proof (cases "i = 0")
    case True
    then show ?thesis using step ids i by (simp add: idOffset_Suc) (simp add: idOffset_def)
  next
    case False
    then have "map peak_id (assignIds (length tbl) 1 0 tbl ! i) = map (\<lambda>p. peak_id p + int (idOffset tbl i)) (tbl ! i)"
      using step i by (simp add: idOffset_sum)
    then show ?thesis using shift[of "idOffset tbl i"] i by (simp add: idOffset_Suc)
  qed
qed

subsection \<open>The table handed to the pose grouping\<close>

lemma shiftId_pos: "pos (shiftId pb p) = pos p" and shiftId_score: "score (shiftId pb p) = score p"
  by (simp_all add: shiftId_def)

lemma assignIds_keeps:
  assumes "\<And>pb p. f (shiftId pb p) = f p"
  shows "length tbl = n \<Longrightarrow> map f (assignIds n k pb tbl ! i) = map f (tbl ! i)"
proof (induction n k pb tbl rule: assignIds.induct)
  case (1 n k pb tbl)
  show ?case
  proof (cases "k < n")
    case False
    then show ?thesis by (subst assignIds.simps) simp
  next
    case True
    define pb' where "pb' = int32 (pb + size_to_int (length (tbl ! (k - 1))))"
    define tbl' where "tbl' = tbl[k := map (shiftId pb') (tbl ! k)]"
    have unfold: "assignIds n k pb tbl = assignIds n (Suc k) pb' tbl'"
      using True by (subst assignIds.simps) (simp add: pb'_def tbl'_def Let_def del: assignIds.simps)
    have "map f (assignIds n (Suc k) pb' tbl' ! i) = map f (tbl' ! i)"
      using "1.IH"[OF True pb'_def tbl'_def] "1.prems" by (simp add: tbl'_def)
    moreover have "map f (tbl' ! i) = map f (tbl ! i)"
      using "1.prems" True assms by (cases "i = k") (simp_all add: tbl'_def)
    ultimately show ?thesis unfolding unfold by simp
  qed
qed

lemma parallel_for_length:
  "length (fst (parallel_for sched (findPeaks pf d thr) (tbl, hm))) = length tbl"
  unfolding parallel_for_def
  by (induction sched arbitrary: tbl hm) (simp_all add: findPeaks_def case_prod_unfold Let_def)

text \<open>
  Claim C1.  Let the parallel loop of \<^verbatim>\<open>extractPoses\<close> leave a candidate table that
  holds, for every keypoint type \<open>i\<close>, its \<open>n\<^sub>i\<close> candidates numbered
  \<open>0, \<dots>, n\<^sub>i - 1\<close> in order, the number of all candidates fitting the \<^verbatim>\<open>int\<close>
  counter of the ID loop.  Then the table \<^verbatim>\<open>extractPoses\<close> hands to
  \<^verbatim>\<open>groupPeaksToPoses\<close> has a row for every heatmap, and in row \<open>i\<close> the IDs are, in
  order, the numbers from \<open>n\<^sub>0 + \<dots> + n\<^sub>i\<^sub>-\<^sub>1\<close> up to, but not including,
  \<open>n\<^sub>0 + \<dots> + n\<^sub>i\<close>, with the locations and scores the loop left there.
\<close>

theorem extractPoses_ids_contiguous:
  assumes loop: "parallel_for sched (findPeaks peakFinder (minPeaksDistance fl) threshold)
                   (replicate (length heatMaps) [], heatMaps) = (tbl, heatMaps')"
    and numbered: "\<forall>i<length tbl. map peak_id (tbl ! i) = map int [0..<length (tbl ! i)]"
    and fits: "sum_list (map length tbl) < 2 ^ 31"
  shows "\<exists>tbl'.
           extractPoses sched peakFinder groupPeaksToPoses c fl threshold (heatMaps, pafs) =
             (case groupPeaksToPoses tbl' pafs (keypointsNumber c) (midPointsScoreThreshold fl)
                     (foundMidPointsRatioThreshold fl) (minJointsNumber c) (minSubsetScore fl) of
                (found, pafs') \<Rightarrow> (found, heatMaps', pafs'))
         \<and> length tbl' = length heatMaps
         \<and> (\<forall>i<length heatMaps.
               map peak_id (tbl' ! i) = map int [idOffset tbl i..<idOffset tbl (Suc i)]
             \<and> map pos (tbl' ! i) = map pos (tbl ! i)
             \<and> map score (tbl' ! i) = map score (tbl ! i))"
proof -
  have len: "length tbl = length heatMaps"
    using parallel_for_length[of sched peakFinder "minPeaksDistance fl" threshold
        "replicate (length heatMaps) []" heatMaps] loop by simp
  define tbl' where "tbl' = assignIds (length heatMaps) 1 0 tbl"
  have run: "extractPoses sched peakFinder groupPeaksToPoses c fl threshold (heatMaps, pafs) =
             (case groupPeaksToPoses tbl' pafs (keypointsNumber c) (midPointsScoreThreshold fl)
                     (foundMidPointsRatioThreshold fl) (minJointsNumber c) (minSubsetScore fl) of
                (found, pafs') \<Rightarrow> (found, heatMaps', pafs'))"
    unfolding extractPoses_def tbl'_def by (simp add: loop Let_def del: assignIds.simps)
  have l': "length tbl' = length heatMaps"
    by (simp add: tbl'_def assignIds_length len del: assignIds.simps)
  have rows: "map peak_id (tbl' ! i) = map int [idOffset tbl i..<idOffset tbl (Suc i)]
             \<and> map pos (tbl' ! i) = map pos (tbl ! i)
             \<and> map score (tbl' ! i) = map score (tbl ! i)" if "i < length heatMaps" for i
  proof -
    have "map peak_id (assignIds (length tbl) 1 0 tbl ! i) = map int [idOffset tbl i..<idOffset tbl (Suc i)]"
      using that len by (intro assignIds_contiguous[OF numbered fits]) simp
    moreover have "map pos (assignIds (length tbl) 1 0 tbl ! i) = map pos (tbl ! i)"
      by (rule assignIds_keeps[OF shiftId_pos refl])
    moreover have "map score (assignIds (length tbl) 1 0 tbl ! i) = map score (tbl ! i)"
      by (rule assignIds_keeps[OF shiftId_score refl])
    ultimately show ?thesis by (simp add: tbl'_def len del: assignIds.simps)
  qed
  show ?thesis using run l' rows by blast
qed

text \<open>
  The example heatmaps give two candidates of type 0 and one of type 1; the grouping
  that reports the IDs it is handed sees 0 and 1, then 2.
\<close>

lemma example_loop:
  "parallel_for [1, 0] (findPeaks thresholdPeaks (minPeaksDistance exactFloat) (1 / 10))
     (replicate (length exampleHeatMaps) [], exampleHeatMaps) = (exampleTable, exampleHeatMaps)"
  by (simp add: parallel_for_def findPeaks_def thresholdPeaks_def exampleHeatMaps_def exampleTable_def Let_def)

text \<open>The IDs that reach the grouping in the example run.\<close>

theorem extractPoses_ids_contiguous_witness:
  "map pose_score (fst (extractPoses [1, 0] thresholdPeaks idPoses smallConsts exactFloat (1 / 10)
     (exampleHeatMaps, examplePafs))) = [0, 1, 2]"
proof -
  have numbered: "\<forall>i<length exampleTable. map peak_id (exampleTable ! i) = map int [0..<length (exampleTable ! i)]"
    by (simp add: exampleTable_def less_Suc_eq upt_rec)
  have fits: "sum_list (map length exampleTable) < 2 ^ 31"
    by (simp add: exampleTable_def)
  obtain tbl' where run: "extractPoses [1, 0] thresholdPeaks idPoses smallConsts exactFloat (1 / 10)
        (exampleHeatMaps, examplePafs) =
      (case idPoses tbl' examplePafs (keypointsNumber smallConsts) (midPointsScoreThreshold exactFloat)
              (foundMidPointsRatioThreshold exactFloat) (minJointsNumber smallConsts)
              (minSubsetScore exactFloat) of
         (found, pafs') \<Rightarrow> (found, exampleHeatMaps, pafs'))"
    and l: "length tbl' = length exampleHeatMaps"
    and rows: "\<forall>i<length exampleHeatMaps.
        map peak_id (tbl' ! i) = map int [idOffset exampleTable i..<idOffset exampleTable (Suc i)]
      \<and> map pos (tbl' ! i) = map pos (exampleTable ! i)
      \<and> map score (tbl' ! i) = map score (exampleTable ! i)"
    using extractPoses_ids_contiguous[OF example_loop numbered fits] by blast
  have l2: "length tbl' = 2" using l by (simp add: exampleHeatMaps_def)
  then obtain r0 r1 where t: "tbl' = [r0, r1]"
    by (cases tbl'; cases "tl tbl'") auto
  have "map int [idOffset exampleTable 0..<idOffset exampleTable (Suc 0)] = [0, 1]"
    by (simp add: idOffset_def exampleTable_def upt_rec)
  moreover have "map int [idOffset exampleTable 1..<idOffset exampleTable (Suc 1)] = [2]"
    by (simp add: idOffset_def exampleTable_def upt_rec)
  moreover have "0 < length exampleHeatMaps" "1 < length exampleHeatMaps"
    by (simp_all add: exampleHeatMaps_def)
  ultimately have ids: "map peak_id r0 = [0, 1]" "map peak_id r1 = [2]"
    using rows[rule_format, of 0] rows[rule_format, of 1] by (simp_all add: t)
  have "map pose_score (fst (idPoses tbl' examplePafs k t1 t2 j t3)) =
      map of_int (map peak_id r0 @ map peak_id r1)" for k t1 t2 j t3
    by (simp add: idPoses_def t comp_def)
  then show ?thesis unfolding run by (simp add: ids case_prod_unfold)
qed

subsection \<open>The parallel loop and the maps\<close>

lemma findPeaks_pair:
  "findPeaks pf d thr i (tbl, hm) = (tbl[i := fst (pf hm d i thr)], snd (pf hm d i thr))"
  by (simp add: findPeaks_def case_prod_unfold Let_def)

lemma findPeaks_keeps:
  "findPeaks_keeps_maps pf \<Longrightarrow> findPeaks pf d thr i (tbl, hm) = (tbl[i := fst (pf hm d i thr)], hm)"
  by (simp add: findPeaks_pair findPeaks_keeps_maps_def)

lemma findPeaks_commute:
  assumes "findPeaks_keeps_maps pf"
  shows "findPeaks pf d thr i \<circ> findPeaks pf d thr j = findPeaks pf d thr j \<circ> findPeaks pf d thr i"
proof (rule ext)
  fix s :: "'a Peak list list \<times> 'a Mat list"
  obtain tbl hm where s: "s = (tbl, hm)" by (cases s)
  show "(findPeaks pf d thr i \<circ> findPeaks pf d thr j) s = (findPeaks pf d thr j \<circ> findPeaks pf d thr i) s"
    unfolding s by (cases "i = j") (simp_all add: findPeaks_keeps[OF assms] list_update_swap)
qed

lemma parallel_for_schedule:
  assumes "findPeaks_keeps_maps pf" "is_schedule n sched1" "is_schedule n sched2"
  shows "parallel_for sched1 (findPeaks pf d thr) s = parallel_for sched2 (findPeaks pf d thr) s"
proof -
  have "mset (sort sched1) = mset (sort sched2)"
    using assms(2,3) by (simp add: is_schedule_def)
  then have "mset sched1 = mset sched2" by simp
  then have "fold (findPeaks pf d thr) sched1 = fold (findPeaks pf d thr) sched2"
    by (rule fold_multiset_equiv[rotated]) (rule findPeaks_commute[OF assms(1)])
  then show ?thesis by (simp add: parallel_for_def)
qed

text \<open>
  Claim C4.  Two runs of \<^verbatim>\<open>extractPoses\<close> on the same maps with the same configuration
  return the same poses, in the same order, with the same coordinates and scores,
  whatever the order in which the parallel loop carries out the per-type peak
  extractions in either run; the peak finder is one that leaves the maps alone.
\<close>

theorem extractPoses_deterministic:
  assumes "findPeaks_keeps_maps peakFinder"
    and "is_schedule (length heatMaps) sched1"
    and "is_schedule (length heatMaps) sched2"
  shows "extractPoses sched1 peakFinder groupPeaksToPoses c fl threshold (heatMaps, pafs)
       = extractPoses sched2 peakFinder groupPeaksToPoses c fl threshold (heatMaps, pafs)"
  unfolding extractPoses_def
  by (simp add: parallel_for_schedule[OF assms] del: assignIds.simps)

subsection \<open>The example decoder\<close>

lemma thresholdPeaks_keeps: "findPeaks_keeps_maps thresholdPeaks"
  by (simp add: findPeaks_keeps_maps_def thresholdPeaks_def)

text \<open>The two schedules of the two example heatmaps give the same result.\<close>

theorem extractPoses_deterministic_witness:
  "extractPoses [1, 0] thresholdPeaks singletonPoses smallConsts exactFloat (1 / 10) (exampleHeatMaps, examplePafs)
   = extractPoses [0, 1] thresholdPeaks singletonPoses smallConsts exactFloat (1 / 10) (exampleHeatMaps, examplePafs)"
proof -
  have s1: "is_schedule (length exampleHeatMaps) [1, 0]"
    by (simp add: is_schedule_def exampleHeatMaps_def upt_rec)
  have s2: "is_schedule (length exampleHeatMaps) [0, 1]"
    by (simp add: is_schedule_def exampleHeatMaps_def upt_rec)
  show ?thesis
    by (rule extractPoses_deterministic[OF thresholdPeaks_keeps s1 s2])
qed

subsection \<open>The tunable constants\<close>

text \<open>
  Claim C9.  The constants are the floats of the literals 3.0, 0.05, 0.8 and 0.2, and
  \<^verbatim>\<open>extractPoses\<close> passes them on: 3.0 as the minimal peak distance of every call of
  the peak finder, and 0.05, 0.8 and 0.2 as the mid-point score threshold, the ratio of
  found mid-points and the minimal subset score of the pose grouping.
\<close>

theorem tunable_constants_passed:
  "minPeaksDistance fl = f32 fl 3.0
   \<and> midPointsScoreThreshold fl = f32 fl 0.05
   \<and> foundMidPointsRatioThreshold fl = f32 fl 0.8
   \<and> minSubsetScore fl = f32 fl 0.2
   \<and> extractPoses sched peakFinder groupPeaksToPoses c fl threshold (heatMaps, pafs) =
       (let (peaksFromHeatMap, heatMaps') =
              parallel_for sched (findPeaks peakFinder (f32 fl 3.0) threshold)
                (replicate (length heatMaps) [], heatMaps);
            (found, pafs') =
              groupPeaksToPoses (assignIds (length heatMaps) 1 0 peaksFromHeatMap) pafs
                (keypointsNumber c) (f32 fl 0.05) (f32 fl 0.8) (minJointsNumber c) (f32 fl 0.2)
        in (found, heatMaps', pafs'))"
  by (simp add: minPeaksDistance_def midPointsScoreThreshold_def foundMidPointsRatioThreshold_def
      minSubsetScore_def extractPoses_def Let_def del: assignIds.simps)

subsection \<open>The poses of the result\<close>

lemma push_back_poses_drop: "push_back_poses i ps result = result @ drop i ps"
proof (induction i ps result rule: push_back_poses.induct)
  case (1 i ps result)
  show ?case
  proof (cases "i < length ps")
    case True
    then show ?thesis
      using "1.IH" by (subst push_back_poses.simps) (simp add: Cons_nth_drop_Suc)
  next
    case False
    then show ?thesis by (subst push_back_poses.simps) simp
  qed
qed

lemma finishPoses_map:
  "finishPoses fl c scale ps =
     map (rescalePose fl
            (fmul fl (f32 fl (of_int (tdiv (stride c) (upsampleRatio c)))) (scaleX scale))
            (fmul fl (f32 fl (of_int (tdiv (stride c) (upsampleRatio c)))) (scaleY scale))) ps"
  by (simp add: finishPoses_def Let_def push_back_poses_drop del: push_back_poses.simps)

lemma postprocess_poses:
  assumes "postprocess sched peakFinder groupPeaksToPoses cv_resize fl c this infResult = Inr r"
    and "featureMaps cv_resize c this infResult = Inr maps"
  shows "poses r = finishPoses fl c (internalModelData infResult)
           (fst (extractPoses sched peakFinder groupPeaksToPoses c fl (confidenceThreshold this) maps))"
  using assms by (auto simp: postprocess_def Let_def)

text \<open>
  Claim C6.  The poses of the result \<^verbatim>\<open>postprocess\<close> returns are the poses
  \<^verbatim>\<open>extractPoses\<close> returned, each rescaled, one for one and in the same order; the
  scores come in the order of \<^verbatim>\<open>extractPoses\<close>.
\<close>

theorem postprocess_keeps_order:
  assumes "postprocess sched peakFinder groupPeaksToPoses cv_resize fl c this infResult = Inr r"
    and "featureMaps cv_resize c this infResult = Inr maps"
    and "fst (extractPoses sched peakFinder groupPeaksToPoses c fl (confidenceThreshold this) maps) = ps"
  shows "length (poses r) = length ps
       \<and> map pose_score (poses r) = map pose_score ps
       \<and> poses r =
           map (rescalePose fl
                  (fmul fl (f32 fl (of_int (tdiv (stride c) (upsampleRatio c))))
                     (scaleX (internalModelData infResult)))
                  (fmul fl (f32 fl (of_int (tdiv (stride c) (upsampleRatio c))))
                     (scaleY (internalModelData infResult)))) ps"
  using postprocess_poses[OF assms(1,2)] assms(3)
  by (simp add: finishPoses_map rescalePose_def comp_def)

text \<open>
  Claim C5.  In the result of \<^verbatim>\<open>postprocess\<close>, keypoint \<open>k\<close> of pose \<open>i\<close> is the
  keypoint \<^verbatim>\<open>extractPoses\<close> returned when that is \<open>(-1, -1)\<close>; otherwise its
  coordinates are those of the returned keypoint multiplied by the scale factor of
  their axis.  The pose has as many keypoints as before and the same score.
\<close>

theorem postprocess_rescales_keypoints:
  assumes "postprocess sched peakFinder groupPeaksToPoses cv_resize fl c this infResult = Inr r"
    and "featureMaps cv_resize c this infResult = Inr maps"
    and "fst (extractPoses sched peakFinder groupPeaksToPoses c fl (confidenceThreshold this) maps) = ps"
    and "i < length ps"
    and "k < length (keypoints (ps ! i))"
  shows "(let sx = fmul fl (f32 fl (of_int (tdiv (stride c) (upsampleRatio c))))
                     (scaleX (internalModelData infResult));
              sy = fmul fl (f32 fl (of_int (tdiv (stride c) (upsampleRatio c))))
                     (scaleY (internalModelData infResult));
              keypoint = keypoints (ps ! i) ! k;
              keypoint' = keypoints (poses r ! i) ! k
          in (keypoint = \<lparr>x = f32 fl (- 1), y = f32 fl (- 1)\<rparr> \<longrightarrow> keypoint' = keypoint)
           \<and> (keypoint \<noteq> \<lparr>x = f32 fl (- 1), y = f32 fl (- 1)\<rparr> \<longrightarrow>
                keypoint' = \<lparr>x = fmul fl (x keypoint) sx, y = fmul fl (y keypoint) sy\<rparr>)
           \<and> length (keypoints (poses r ! i)) = length (keypoints (ps ! i))
           \<and> pose_score (poses r ! i) = pose_score (ps ! i))"
proof -
  have "poses r ! i = rescalePose fl
      (fmul fl (f32 fl (of_int (tdiv (stride c) (upsampleRatio c)))) (scaleX (internalModelData infResult)))
      (fmul fl (f32 fl (of_int (tdiv (stride c) (upsampleRatio c)))) (scaleY (internalModelData infResult)))
      (ps ! i)"
    using postprocess_poses[OF assms(1,2)] assms(3,4) by (simp add: finishPoses_map)
  moreover have "keypoints (ps ! i) ! k = \<lparr>x = x (keypoints (ps ! i) ! k), y = y (keypoints (ps ! i) ! k)\<rparr>"
    by simp
  ultimately show ?thesis
    using assms(5) by (auto simp: rescalePose_def rescaleKeypoint_def Let_def)
qed

subsection \<open>The example inference result\<close>

lemma example_featureMaps:
  "featureMaps keepPixels smallConsts exampleWrapper exampleInference = Inr (exampleHeatMaps, examplePafs)"
  by (simp add: featureMaps_def exampleWrapper_def exampleInference_def exampleOutputs_def
      smallConsts_def resizeFeatureMaps_def keepPixels_def matAt_def size_to_int_def int32_def
      exampleHeatMaps_def examplePafs_def upt_rec)

lemma example_extractPoses:
  "fst (extractPoses [1, 0] thresholdPeaks singletonPoses smallConsts exactFloat
          (confidenceThreshold exampleWrapper) (exampleHeatMaps, examplePafs)) = examplePoses"
  by (simp add: extractPoses_def parallel_for_def findPeaks_def thresholdPeaks_def singletonPoses_def
      exampleHeatMaps_def examplePafs_def exampleWrapper_def examplePoses_def shiftId_def
      size_to_int_def int32_def Let_def)

lemma example_postprocess:
  "postprocess [1, 0] thresholdPeaks singletonPoses keepPixels exactFloat smallConsts exampleWrapper
     exampleInference =
   Inr (projr (postprocess [1, 0] thresholdPeaks singletonPoses keepPixels exactFloat smallConsts
     exampleWrapper exampleInference))"
  by (simp add: postprocess_def example_featureMaps)

text \<open>The scores of the example result are in the order of the extracted poses, unsorted.\<close>

theorem postprocess_keeps_order_witness:
  "map pose_score (poses (projr (postprocess [1, 0] thresholdPeaks singletonPoses keepPixels exactFloat
     smallConsts exampleWrapper exampleInference))) = [1 / 2, 9 / 10, 3 / 10]"
  using postprocess_keeps_order[OF example_postprocess example_featureMaps example_extractPoses,
      THEN conjunct2, THEN conjunct1]
  by (simp add: examplePoses_def)

text \<open>
  In the example the scale factors are 6 and 10: the keypoint \<open>(4, 7)\<close> of the first
  pose becomes \<open>(24, 70)\<close> and its absent keypoint stays \<open>(-1, -1)\<close>.
\<close>

theorem postprocess_rescales_keypoints_witness:
  "keypoints (poses (projr (postprocess [1, 0] thresholdPeaks singletonPoses keepPixels exactFloat
     smallConsts exampleWrapper exampleInference)) ! 0) ! 0 = \<lparr>x = 24, y = 70\<rparr>
   \<and> keypoints (poses (projr (postprocess [1, 0] thresholdPeaks singletonPoses keepPixels exactFloat
     smallConsts exampleWrapper exampleInference)) ! 0) ! 1 = \<lparr>x = - 1, y = - 1\<rparr>"
proof -
  have i: "0 < length examplePoses" by (simp add: examplePoses_def)
  have k0: "0 < length (keypoints (examplePoses ! 0))" by (simp add: examplePoses_def)
  have k1: "1 < length (keypoints (examplePoses ! 0))" by (simp add: examplePoses_def)
  show ?thesis
    using postprocess_rescales_keypoints[OF example_postprocess example_featureMaps example_extractPoses i k0]
      postprocess_rescales_keypoints[OF example_postprocess example_featureMaps example_extractPoses i k1]
    by (simp add: Let_def examplePoses_def exactFloat_def smallConsts_def exampleInference_def tdiv_def)
qed

text \<open>The example run, read through the equation of claim C9.\<close>

theorem tunable_constants_passed_witness:
  "fst (extractPoses [0, 1] thresholdPeaks singletonPoses smallConsts exactFloat (1 / 10)
     (exampleHeatMaps, examplePafs)) = examplePoses"
  using tunable_constants_passed[of exactFloat "[0, 1]" thresholdPeaks singletonPoses smallConsts "1 / 10"
      exampleHeatMaps examplePafs]
  by (simp add: parallel_for_def findPeaks_def thresholdPeaks_def singletonPoses_def
      exampleHeatMaps_def examplePafs_def examplePoses_def shiftId_def
      size_to_int_def int32_def Let_def)

subsection \<open>The checks of prepareInputsOutputs\<close>

lemma length_one_conv: "length xs = Suc 0 \<longleftrightarrow> (\<exists>a. xs = [a])"
  by (cases xs) auto

lemma length_two_conv: "length xs = 2 \<longleftrightarrow> (\<exists>a b. xs = [a, b])"
  by (cases xs; cases "tl xs") auto

lemma model_input_Inr: "model_input m = Inr p \<longleftrightarrow> model_inputs m = [p]"
  by (auto simp: model_input_def split: list.splits)

lemma prepareInputsOutputs_changeInputSize:
  assumes "prepareInputsOutputs lib roundScaled c this model = Inr r"
  shows "\<exists>this1 model1. changeInputSize lib roundScaled c this model = Inr (this1, model1)"
  using assms by (cases "changeInputSize lib roundScaled c this model") (auto simp: prepareInputsOutputs_def)

lemma prepareInputsOutputs_Inr_iff:
  assumes cis: "changeInputSize lib roundScaled c this model = Inr (this1, model1)"
  shows "prepareInputsOutputs lib roundScaled c this model = Inr r \<longleftrightarrow>
     (\<exists>inp heatmaps pafs model2.
        model_inputs model1 = [inp]
      \<and> length (port_shape inp) = 4 \<and> port_shape inp ! 0 = 1 \<and> port_shape inp ! 1 = 3
      \<and> model_outputs model1 = [heatmaps, pafs]
      \<and> ppp_build lib model1 = Some model2
      \<and> length (port_shape heatmaps) = 4 \<and> port_shape heatmaps ! 0 = 1
      \<and> port_shape heatmaps ! 1 = keypointsNumber c + 1
      \<and> length (port_shape pafs) = 4 \<and> port_shape pafs ! 0 = 1
      \<and> port_shape pafs ! 1 = 2 * (keypointsNumber c + 1)
      \<and> port_shape pafs ! 2 = port_shape heatmaps ! 2
      \<and> port_shape pafs ! 3 = port_shape heatmaps ! 3
      \<and> r = (this1\<lparr>inputsNames := inputsNames this1 @ [any_name inp],
                    outputsNames := outputsNames this1 @ [any_name heatmaps, any_name pafs]\<rparr>, model2))"
  (is "?L \<longleftrightarrow> ?R")
proof
  assume ?L
  then show ?R
    unfolding prepareInputsOutputs_def cis
    by (auto simp: Let_def length_one_conv length_two_conv model_input_Inr
        split: sum.splits if_splits option.splits)
next
  assume ?R
  then show ?L
    unfolding prepareInputsOutputs_def cis
    by (auto simp: Let_def model_input_def)
qed

lemma prepareInputsOutputs_no_OutOfRange:
  assumes cis: "changeInputSize lib roundScaled c this model = Inr (this1, model1)"
  shows "prepareInputsOutputs lib roundScaled c this model \<noteq> Inl OutOfRange"
  unfolding prepareInputsOutputs_def cis
  by (auto simp: Let_def model_input_def split: sum.splits option.splits list.splits)

text \<open>
  Claim C2.  Take a model that \<^verbatim>\<open>changeInputSize\<close> reshapes without failure and that
  then has a heatmap output and a PAF output (its first and second output) which differ
  in height or in width.  \<^verbatim>\<open>prepareInputsOutputs\<close> does not return for it: it throws
  an exception.
\<close>

theorem prepareInputsOutputs_rejects_mismatch:
  assumes cis: "changeInputSize lib roundScaled c this model = Inr (this1, model1)"
    and outs: "model_outputs model1 = [heatmaps, pafs]"
    and differ: "port_shape pafs ! 2 \<noteq> port_shape heatmaps ! 2 \<or> port_shape pafs ! 3 \<noteq> port_shape heatmaps ! 3"
  shows "\<exists>e. prepareInputsOutputs lib roundScaled c this model = Inl e \<and> e \<noteq> OutOfRange"
proof (cases "prepareInputsOutputs lib roundScaled c this model")
  case (Inl e)
  then show ?thesis using prepareInputsOutputs_no_OutOfRange[OF cis] by auto
next
  case (Inr r)
  then show ?thesis
    using outs differ unfolding prepareInputsOutputs_Inr_iff[OF cis] by auto
qed

text \<open>
  Claim C7.  When \<^verbatim>\<open>prepareInputsOutputs\<close> returns, the model as reshaped has exactly
  two outputs, both of four dimensions, the first with \<^verbatim>\<open>keypointsNumber + 1\<close> channels
  and the second with \<^verbatim>\<open>2 * (keypointsNumber + 1)\<close>; for any other model the call ends
  in an exception.
\<close>

theorem prepareInputsOutputs_accepts_only:
  assumes "prepareInputsOutputs lib roundScaled c this model = Inr r"
  shows "\<exists>this1 model1 heatmaps pafs.
           changeInputSize lib roundScaled c this model = Inr (this1, model1)
         \<and> model_outputs model1 = [heatmaps, pafs]
         \<and> length (port_shape heatmaps) = 4
         \<and> port_shape heatmaps ! 1 = keypointsNumber c + 1
         \<and> length (port_shape pafs) = 4
         \<and> port_shape pafs ! 1 = 2 * (keypointsNumber c + 1)"
proof -
  obtain this1 model1 where cis: "changeInputSize lib roundScaled c this model = Inr (this1, model1)"
    using prepareInputsOutputs_changeInputSize[OF assms] by blast
  show ?thesis
    using assms unfolding prepareInputsOutputs_Inr_iff[OF cis] cis by auto
qed

lemma preprocess_Inr_iff:
  "(\<exists>r. preprocess fl resizeImageExt c this inputImage = Inr r) \<longleftrightarrow>
     rect_width (snd (resizeImageExt inputImage (width (inputLayerSize this)) (height (inputLayerSize this))))
       \<le> width (inputLayerSize this)"
  by (auto simp: preprocess_def case_prod_unfold Let_def)

lemma shape4:
  "length s = 4 \<and> s ! 0 = a \<and> s ! 1 = b \<and> s ! 2 = h \<and> s ! 3 = w \<longleftrightarrow> s = [a, b, h, w]"
  by (auto simp: list_eq_iff_nth_eq less_Suc_eq eval_nat_numeral)

text \<open>
  Claim C3, amended.  For a model that \<^verbatim>\<open>changeInputSize\<close> reshapes without failure,
  \<^verbatim>\<open>prepareInputsOutputs\<close> returns exactly when the model has one input of shape
  \<open>1 \<times> 3 \<times> H \<times> W\<close> and two outputs of shapes \<open>1 \<times> (K + 1) \<times> h \<times> w\<close> and
  \<open>1 \<times> 2 (K + 1) \<times> h \<times> w\<close>, and \<^verbatim>\<open>ppp.build()\<close> succeeds; \<^verbatim>\<open>preprocess\<close> returns
  exactly when the region of the resized image is not wider than the input layer.  So
  the number and shape of the inputs, the number of outputs and the width of the
  resized image are fatal conditions next to the shapes of the two maps.
\<close>

theorem exceptions_only_from_checks:
  assumes cis: "changeInputSize lib roundScaled c this model = Inr (this1, model1)"
  shows "((\<exists>r. prepareInputsOutputs lib roundScaled c this model = Inr r) \<longleftrightarrow>
           (\<exists>inp heatmaps pafs h w.
              model_inputs model1 = [inp]
            \<and> length (port_shape inp) = 4 \<and> port_shape inp ! 0 = 1 \<and> port_shape inp ! 1 = 3
            \<and> model_outputs model1 = [heatmaps, pafs]
            \<and> ppp_build lib model1 \<noteq> None
            \<and> port_shape heatmaps = [1, keypointsNumber c + 1, h, w]
            \<and> port_shape pafs = [1, 2 * (keypointsNumber c + 1), h, w]))
       \<and> ((\<exists>r. preprocess fl resizeImageExt c this' inputImage = Inr r) \<longleftrightarrow>
            rect_width (snd (resizeImageExt inputImage (width (inputLayerSize this'))
                               (height (inputLayerSize this'))))
              \<le> width (inputLayerSize this'))"
proof -
  have "(\<exists>r. prepareInputsOutputs lib roundScaled c this model = Inr r) \<longleftrightarrow>
           (\<exists>inp heatmaps pafs h w.
              model_inputs model1 = [inp]
            \<and> length (port_shape inp) = 4 \<and> port_shape inp ! 0 = 1 \<and> port_shape inp ! 1 = 3
            \<and> model_outputs model1 = [heatmaps, pafs]
            \<and> ppp_build lib model1 \<noteq> None
            \<and> port_shape heatmaps = [1, keypointsNumber c + 1, h, w]
            \<and> port_shape pafs = [1, 2 * (keypointsNumber c + 1), h, w])"
    unfolding prepareInputsOutputs_Inr_iff[OF cis] shape4[symmetric]
    by auto
  then show ?thesis using preprocess_Inr_iff by blast
qed

subsection \<open>The example models\<close>

lemma changeInputSize_openpose:
  "changeInputSize exampleLib exactRoundScaled openposeConsts squareWrapper openposeModel =
     Inr (squareWrapper\<lparr>inputLayerSize := \<lparr>width = 368, height = 368\<rparr>\<rparr>, openposeModel)"
  by code_simp

lemma changeInputSize_narrowPafs:
  "changeInputSize exampleLib exactRoundScaled openposeConsts squareWrapper narrowPafsModel =
     Inr (squareWrapper\<lparr>inputLayerSize := \<lparr>width = 368, height = 368\<rparr>\<rparr>, narrowPafsModel)"
  by code_simp

lemma prepareInputsOutputs_openpose:
  "prepareInputsOutputs exampleLib exactRoundScaled openposeConsts squareWrapper openposeModel =
     Inr (preparedWrapper, openposeModel)"
  by code_simp

text \<open>The model with the narrower PAF output is rejected with an exception.\<close>

theorem prepareInputsOutputs_rejects_mismatch_witness:
  "\<exists>e. prepareInputsOutputs exampleLib exactRoundScaled openposeConsts squareWrapper narrowPafsModel = Inl e
       \<and> e \<noteq> OutOfRange"
proof -
  have outs: "model_outputs narrowPafsModel =
      [\<lparr>any_name = ''heatmaps'', port_shape = [1, 19, 46, 46]\<rparr>,
       \<lparr>any_name = ''pafs'', port_shape = [1, 38, 46, 45]\<rparr>]"
    by (simp add: narrowPafsModel_def)
  show ?thesis
    by (rule prepareInputsOutputs_rejects_mismatch[OF changeInputSize_narrowPafs outs]) simp
qed

text \<open>The OpenPose model is accepted; its outputs have 19 and 38 channels.\<close>

theorem prepareInputsOutputs_accepts_only_witness:
  "\<exists>this1 model1 heatmaps pafs.
     changeInputSize exampleLib exactRoundScaled openposeConsts squareWrapper openposeModel
       = Inr (this1, model1)
   \<and> model_outputs model1 = [heatmaps, pafs]
   \<and> length (port_shape heatmaps) = 4
   \<and> port_shape heatmaps ! 1 = 19
   \<and> length (port_shape pafs) = 4
   \<and> port_shape pafs ! 1 = 38"
  using prepareInputsOutputs_accepts_only[OF prepareInputsOutputs_openpose]
  by (simp add: openposeConsts_def)

text \<open>
  Claim C3 as stated fails.  The OpenPose model is accepted, so the shapes of its maps
  meet the preconditions; yet \<^verbatim>\<open>preprocess\<close> throws on the wrapper prepared for it
  when the resized image is reported wider than the input layer, and
  \<^verbatim>\<open>prepareInputsOutputs\<close> throws for the models with the same outputs and a
  one-channel input or a second input.
\<close>

theorem only_shape_preconditions_counterexample:
  "prepareInputsOutputs exampleLib exactRoundScaled openposeConsts squareWrapper openposeModel
     = Inr (preparedWrapper, openposeModel)
   \<and> preprocess exactFloat wideResize openposeConsts preparedWrapper exampleImage
     = Inl AspectRatioDoesNotFit
   \<and> model_outputs grayInputModel = model_outputs openposeModel
   \<and> prepareInputsOutputs exampleLib exactRoundScaled openposeConsts squareWrapper grayInputModel
     = Inl InputShapeExpected
   \<and> model_outputs twoInputsModel = model_outputs openposeModel
   \<and> prepareInputsOutputs exampleLib exactRoundScaled openposeConsts squareWrapper twoInputsModel
     = Inl LibraryError"
proof (intro conjI)
  show "prepareInputsOutputs exampleLib exactRoundScaled openposeConsts squareWrapper openposeModel
     = Inr (preparedWrapper, openposeModel)"
    by (rule prepareInputsOutputs_openpose)
  show "preprocess exactFloat wideResize openposeConsts preparedWrapper exampleImage
     = Inl AspectRatioDoesNotFit"
    by code_simp
  show "prepareInputsOutputs exampleLib exactRoundScaled openposeConsts squareWrapper grayInputModel
     = Inl InputShapeExpected"
    by code_simp
  show "prepareInputsOutputs exampleLib exactRoundScaled openposeConsts squareWrapper twoInputsModel
     = Inl LibraryError"
    by code_simp
qed (simp_all add: grayInputModel_def twoInputsModel_def)

text \<open>
  Both stages return for the OpenPose model and an image resized to the width of the
  input layer.
\<close>

theorem exceptions_only_from_checks_witness:
  "(\<exists>r. prepareInputsOutputs exampleLib exactRoundScaled openposeConsts squareWrapper openposeModel = Inr r)
   \<and> (\<exists>r. preprocess exactFloat fittingResize openposeConsts preparedWrapper exampleImage = Inr r)"
proof -
  have inp: "model_inputs openposeModel = [\<lparr>any_name = ''data'', port_shape = [1, 3, 368, 368]\<rparr>]"
    and outs: "model_outputs openposeModel =
      [\<lparr>any_name = ''heatmaps'', port_shape = [1, 19, 46, 46]\<rparr>,
       \<lparr>any_name = ''pafs'', port_shape = [1, 38, 46, 46]\<rparr>]"
    by (simp_all add: openposeModel_def)
  have build: "ppp_build exampleLib openposeModel \<noteq> None"
    by (simp add: exampleLib_def)
  have fits: "rect_width (snd (fittingResize exampleImage (width (inputLayerSize preparedWrapper))
      (height (inputLayerSize preparedWrapper)))) \<le> width (inputLayerSize preparedWrapper)"
    by (simp add: fittingResize_def preparedWrapper_def)
  have checks: "\<exists>inp heatmaps pafs h w.
      model_inputs openposeModel = [inp]
    \<and> length (port_shape inp) = 4 \<and> port_shape inp ! 0 = 1 \<and> port_shape inp ! 1 = 3
    \<and> model_outputs openposeModel = [heatmaps, pafs]
    \<and> ppp_build exampleLib openposeModel \<noteq> None
    \<and> port_shape heatmaps = [1, keypointsNumber openposeConsts + 1, h, w]
    \<and> port_shape pafs = [1, 2 * (keypointsNumber openposeConsts + 1), h, w]"
    using build by (simp add: inp outs openposeConsts_def)
  show ?thesis
    using exceptions_only_from_checks[OF changeInputSize_openpose, of exactFloat fittingResize
        preparedWrapper exampleImage] checks fits
    by blast
qed

subsection \<open>changeInputSize\<close>

lemma tdiv_nonneg: "0 \<le> a \<Longrightarrow> 0 < b \<Longrightarrow> tdiv a b = a div b"
  by (simp add: tdiv_def sgn_if)

lemma round_up_bounds:
  fixes s v :: int
  assumes "0 < s"
  shows "v \<le> (v + s - 1) div s * s" and "(v + s - 1) div s * s \<le> v + s - 1"
proof -
  have eq: "(v + s - 1) div s * s = v + s - 1 - (v + s - 1) mod s"
    by (simp add: algebra_simps minus_mod_eq_mult_div [symmetric])
  have "(v + s - 1) mod s < s" "0 \<le> (v + s - 1) mod s"
    using assms by simp_all
  then show "v \<le> (v + s - 1) div s * s" and "(v + s - 1) div s * s \<le> v + s - 1"
    unfolding eq by linarith+
qed

lemma round_up_smallest:
  fixes s v :: int
  assumes "0 < s"
  shows "smallest_multiple_ge s v ((v + s - 1) div s * s)"
  unfolding smallest_multiple_ge_def
proof (intro conjI allI impI)
  show "s dvd (v + s - 1) div s * s" by simp
  show "v \<le> (v + s - 1) div s * s" by (rule round_up_bounds[OF assms])
  fix m assume m: "s dvd m \<and> v \<le> m"
  show "(v + s - 1) div s * s \<le> m"
  proof (rule ccontr)
    assume "\<not> (v + s - 1) div s * s \<le> m"
    then have pos: "0 < (v + s - 1) div s * s - m" by simp
    have "s dvd (v + s - 1) div s * s - m" using m by simp
    then have "s \<le> (v + s - 1) div s * s - m" using pos by (rule zdvd_imp_le)
    then show False using round_up_bounds(2)[OF assms, of v] m by linarith
  qed
qed

lemma roundUp_eq:
  assumes "0 < s" "0 \<le> v" "v + s < 2 ^ 31"
  shows "roundUp s v = (v + s - 1) div s * s"
proof -
  have b: "(v + s - 1) div s * s \<le> v + s - 1" "v \<le> (v + s - 1) div s * s"
    using round_up_bounds[OF assms(1), of v] by simp_all
  have "int32 (v + s) = v + s" using assms by (simp add: int32_id)
  moreover have "int32 (v + s - 1) = v + s - 1" using assms by (simp add: int32_id)
  moreover have "tdiv (v + s - 1) s = (v + s - 1) div s" using assms by (simp add: tdiv_nonneg)
  moreover have "int32 ((v + s - 1) div s * s) = (v + s - 1) div s * s"
    using assms b by (intro int32_id) linarith+
  ultimately show ?thesis by (simp add: roundUp_def)
qed

lemma size_int_size: "0 \<le> v \<Longrightarrow> v < 2 ^ 31 \<Longrightarrow> size_to_int (int_to_size v) = v"
  by (simp add: size_to_int_def int_to_size_def int32_id)

lemma changeInputSize_Inr:
  assumes "changeInputSize lib roundScaled c this model = Inr (this', model')"
  obtains inp where "model_inputs model = [inp]" "4 \<le> length (port_shape inp)"
  using assms
  by (auto simp: changeInputSize_def model_input_def Let_def split: list.splits if_splits)

text \<open>
  Claim C10, amended.  Let \<^verbatim>\<open>changeInputSize\<close> return, let \<open>t\<close> be the target size it
  works with (the one given, or the height of the model's input when 0 was given), and
  let \<open>t\<close> and the rounded product of \<open>t\<close> and the aspect ratio be non-negative and
  small enough for the sums with the stride to fit an \<^verbatim>\<open>int\<close>.  Then the height of the
  input layer is the smallest multiple of the stride that is at least \<open>t\<close>, its width
  the smallest multiple that is at least the rounded product, the model is reshaped to
  these, and the height is positive when \<open>t\<close> is.  The width may be 0.
\<close>

theorem changeInputSize_rounds_up:
  assumes ret: "changeInputSize lib roundScaled c this model = Inr (this', model')"
    and inp: "model_inputs model = [inp]"
    and t: "t = (if targetSize this = 0 then int (port_shape inp ! 2) else targetSize this)"
    and s: "0 < stride c"
    and tb: "0 \<le> t" "t + stride c < 2 ^ 31"
    and wb: "0 \<le> roundScaled t (aspectRatio this)" "roundScaled t (aspectRatio this) + stride c < 2 ^ 31"
  shows "targetSize this' = t
       \<and> smallest_multiple_ge (stride c) t (height (inputLayerSize this'))
       \<and> smallest_multiple_ge (stride c) (roundScaled t (aspectRatio this)) (width (inputLayerSize this'))
       \<and> reshape lib model (any_name inp)
            ((port_shape inp)[0 := 1, 2 := nat (height (inputLayerSize this')),
                              3 := nat (width (inputLayerSize this'))]) = Some model'
       \<and> (0 < t \<longrightarrow> 0 < height (inputLayerSize this'))"
proof -
  define h where "h = (t + stride c - 1) div stride c * stride c"
  define iw where "iw = roundScaled t (aspectRatio this)"
  define w where "w = (iw + stride c - 1) div stride c * stride c"
  have len: "4 \<le> length (port_shape inp)"
    using ret inp by (auto elim: changeInputSize_Inr)
  have t': "(if targetSize this = 0 then size_to_int (port_shape inp ! 2) else targetSize this) = t"
  proof (cases "targetSize this = 0")
    case True
    then have "int (port_shape inp ! 2) < 2 ^ 31" using t tb s by simp
    then show ?thesis using True t by (simp add: size_to_int_def int32_id)
  next
    case False
    then show ?thesis using t by simp
  qed
  have hb: "t \<le> h" "h \<le> t + stride c - 1"
    using round_up_bounds[OF s, of t] by (simp_all add: h_def)
  have wbd: "iw \<le> w" "w \<le> iw + stride c - 1"
    using round_up_bounds[OF s, of iw] by (simp_all add: w_def)
  have rh: "roundUp (stride c) t = h"
    using roundUp_eq[OF s tb] by (simp add: h_def)
  have rw: "roundUp (stride c) iw = w"
    using roundUp_eq[OF s] wb by (simp add: w_def iw_def)
  have h31: "0 \<le> h" "h < 2 ^ 31" using hb tb by linarith+
  have w31: "0 \<le> w" "w < 2 ^ 31" using wbd wb unfolding iw_def by linarith+
  have nth2: "(port_shape inp)[0 := 1, 2 := int_to_size h, 3 := int_to_size w] ! 2 = int_to_size h"
    and nth3: "(port_shape inp)[0 := 1, 2 := int_to_size h, 3 := int_to_size w] ! 3 = int_to_size w"
    using len by simp_all
  have its: "int_to_size h = nat h" "int_to_size w = nat w"
    using h31 w31 by (simp_all add: int_to_size_def)
  have sis: "size_to_int (int_to_size h) = h" "size_to_int (int_to_size w) = w"
    using h31 w31 by (simp_all add: size_int_size)
  have res: "this' = this\<lparr>targetSize := t, inputLayerSize := \<lparr>width = w, height = h\<rparr>\<rparr>
      \<and> reshape lib model (any_name inp) ((port_shape inp)[0 := 1, 2 := nat h, 3 := nat w]) = Some model'"
    using ret len unfolding changeInputSize_def model_input_def inp
    by (auto simp: Let_def t' rh rw iw_def[symmetric] nth2 nth3 sis its[symmetric]
        split: option.splits)
  have "smallest_multiple_ge (stride c) t h"
    unfolding h_def by (rule round_up_smallest[OF s])
  moreover have "smallest_multiple_ge (stride c) iw w"
    unfolding w_def by (rule round_up_smallest[OF s])
  ultimately show ?thesis using res hb by (simp add: iw_def)
qed

text \<open>
  Claim C10 as stated fails.  With target size 0 and the aspect ratio of a frame 1024
  times as high as wide, the model's height 368 is taken, the product rounds to 0, and
  the network input is 368 high and 0 wide.  With target size \<open>-8\<close> the height is 0,
  which is not the smallest multiple of 8 from \<open>-8\<close> on.
\<close>

theorem changeInputSize_counterexample:
  "changeInputSize exampleLib exactRoundScaled openposeConsts tallFrameWrapper openposeModel =
     Inr (tallFrameWrapper\<lparr>targetSize := 368, inputLayerSize := \<lparr>width = 0, height = 368\<rparr>\<rparr>,
          openposeModel\<lparr>model_inputs := [\<lparr>any_name = ''data'', port_shape = [1, 3, 368, 0]\<rparr>]\<rparr>)
   \<and> changeInputSize exampleLib exactRoundScaled openposeConsts negativeSizeWrapper openposeModel =
     Inr (negativeSizeWrapper\<lparr>inputLayerSize := \<lparr>width = 0, height = 0\<rparr>\<rparr>,
          openposeModel\<lparr>model_inputs := [\<lparr>any_name = ''data'', port_shape = [1, 3, 0, 0]\<rparr>]\<rparr>)
   \<and> \<not> smallest_multiple_ge 8 (- 8) 0"
proof (intro conjI)
  show "\<not> smallest_multiple_ge 8 (- 8) 0"
  proof
    assume "smallest_multiple_ge 8 (- 8) 0"
    then have "(8::int) dvd - 8 \<and> (- 8::int) \<le> - 8 \<longrightarrow> (0::int) \<le> - 8"
      unfolding smallest_multiple_ge_def by blast
    then show False by simp
  qed
qed code_simp+

text \<open>The wrapper for a 16:9 frame: 368 high, and 656 wide for a product of 654.\<close>

lemma changeInputSize_wideFrame:
  "changeInputSize exampleLib exactRoundScaled openposeConsts wideFrameWrapper openposeModel =
     Inr (wideFrameWrapper\<lparr>targetSize := 368, inputLayerSize := \<lparr>width = 656, height = 368\<rparr>\<rparr>,
          openposeModel\<lparr>model_inputs := [\<lparr>any_name = ''data'', port_shape = [1, 3, 368, 656]\<rparr>]\<rparr>)"
  by code_simp

theorem changeInputSize_rounds_up_witness:
  "smallest_multiple_ge 8 368 368 \<and> smallest_multiple_ge 8 654 656"
proof -
  have inp: "model_inputs openposeModel = [\<lparr>any_name = ''data'', port_shape = [1, 3, 368, 368]\<rparr>]"
    by (simp add: openposeModel_def)
  have t: "(368::int) = (if targetSize wideFrameWrapper = 0
      then int (port_shape \<lparr>any_name = ''data'', port_shape = [1, 3, 368, 368]\<rparr> ! 2)
      else targetSize wideFrameWrapper)"
    by (simp add: wideFrameWrapper_def newHPEOpenPose_def)
  have s: "0 < stride openposeConsts" by (simp add: openposeConsts_def)
  have tb: "(0::int) \<le> 368" "368 + stride openposeConsts < 2 ^ 31"
    by (simp_all add: openposeConsts_def)
  have iw: "exactRoundScaled 368 (aspectRatio wideFrameWrapper) = 654"
    by code_simp
  have wb: "0 \<le> exactRoundScaled 368 (aspectRatio wideFrameWrapper)"
    "exactRoundScaled 368 (aspectRatio wideFrameWrapper) + stride openposeConsts < 2 ^ 31"
    by (simp_all add: iw openposeConsts_def)
  show ?thesis
    using changeInputSize_rounds_up[OF changeInputSize_wideFrame inp t s tb wb]
    by (simp add: iw openposeConsts_def)
qed

end
